theory Spec2Isabelle
  imports Complex_Main
begin

section \<open>Data model of the snake game (src/app/page.tsx)\<close>

text \<open>
  \<^verbatim>\<open>type Position = { x: number; y: number }\<close> and
  \<^verbatim>\<open>type Direction = 'UP' | 'DOWN' | 'LEFT' | 'RIGHT'\<close>.
  Every coordinate the component computes is an integer: the start cell, the
  floor of a scaled random number, and a coordinate plus or minus one.
\<close>

record Position =
  x :: int
  y :: int

datatype Direction = UP | DOWN | LEFT | RIGHT

text \<open>
  The seven \<^verbatim>\<open>useState\<close> cells of the component. The three refs
  (\<^verbatim>\<open>directionRef\<close>, \<^verbatim>\<open>gameOverRef\<close>, \<^verbatim>\<open>isPausedRef\<close>)
  are copied from the state by an effect after every render that changes one of them, so a
  handler that runs after that render reads the state's values through them; the model reads
  the fields of the state.
\<close>

record GameState =
  snake :: "Position list"
  food :: Position
  direction :: Direction
  gameOver :: bool
  isPaused :: bool
  score :: int
  speed :: int

definition gridSize :: int where
  "gridSize = 20"

definition initialSpeed :: int where
  "initialSpeed = 150"

text \<open>The initial values of the state cells (lines 18 to 24).\<close>

definition initialState :: GameState where
  "initialState =
     \<lparr>snake = [\<lparr>x = 10, y = 10\<rparr>], food = \<lparr>x = 5, y = 5\<rparr>, direction = RIGHT,
      gameOver = False, isPaused = True, score = 0, speed = initialSpeed\<rparr>"

section \<open>Food placement\<close>

text \<open>
  \<^verbatim>\<open>generateFood\<close> (lines 39 to 55) draws a cell, and calls itself again when
  the cell is on the snake. The snake it tests is the one of the render that created the
  callback (\<^verbatim>\<open>useCallback(..., [snake, gridSize])\<close>): the first argument. The
  draws \<^verbatim>\<open>Math.floor(Math.random() * gridSize)\<close> are the second argument, the
  cells in the order they are drawn; when they run out before a free cell is drawn the
  result is \<open>None\<close>, which stands for a call that has not returned.
\<close>

fun generateFood :: "Position list \<Rightarrow> Position list \<Rightarrow> Position option" where
  "generateFood body [] = None"
| "generateFood body (newFood # draws) =
     (if list_ex (\<lambda>segment. x segment = x newFood \<and> y segment = y newFood) body
      then generateFood body draws
      else Some newFood)"

text \<open>
  The effect of lines 58 to 60, \<^verbatim>\<open>setFood(generateFood())\<close>, which runs after
  the first render and after every render in which \<^verbatim>\<open>generateFood\<close> is a new
  callback, that is, in which \<^verbatim>\<open>snake\<close> is a new array.
\<close>

definition initFood :: "GameState \<Rightarrow> Position list \<Rightarrow> GameState option" where
  "initFood s draws =
     (case generateFood (snake s) draws of
        None \<Rightarrow> None
      | Some newFood \<Rightarrow> Some (s\<lparr>food := newFood\<rparr>))"

section \<open>The tick\<close>

text \<open>The \<^verbatim>\<open>switch (directionRef.current)\<close> of lines 120 to 133.\<close>

fun moveHead :: "Direction \<Rightarrow> Position \<Rightarrow> Position" where
  "moveHead UP head = head\<lparr>y := y head - 1\<rparr>"
| "moveHead DOWN head = head\<lparr>y := y head + 1\<rparr>"
| "moveHead LEFT head = head\<lparr>x := x head - 1\<rparr>"
| "moveHead RIGHT head = head\<lparr>x := x head + 1\<rparr>"

text \<open>The wall test of lines 136 to 141.\<close>

definition hitsWall :: "Position \<Rightarrow> bool" where
  "hitsWall head \<longleftrightarrow> x head < 0 \<or> x head \<ge> gridSize \<or> y head < 0 \<or> y head \<ge> gridSize"

text \<open>
  The self test of lines 147 to 149:
  \<^verbatim>\<open>prevSnake.some((segment, index) => index > 0 && segment.x === head.x && segment.y === head.y)\<close>.
  The segments of index above 0 are the tail of the list.
\<close>

definition hitsSelf :: "Position list \<Rightarrow> Position \<Rightarrow> bool" where
  "hitsSelf prevSnake head \<longleftrightarrow>
     list_ex (\<lambda>segment. x segment = x head \<and> y segment = y head) (tl prevSnake)"

text \<open>
  \<^verbatim>\<open>moveSnake\<close> (lines 115 to 172): the updater given to \<^verbatim>\<open>setSnake\<close>
  together with the other setters it calls. The effect that owns the timer is set up again
  whenever \<^verbatim>\<open>food\<close>, \<^verbatim>\<open>generateFood\<close> (so \<^verbatim>\<open>snake\<close>) or
  \<^verbatim>\<open>speed\<close> changes, so the values the callback closes over are those of the
  current state, and \<^verbatim>\<open>prevSnake\<close> is \<^verbatim>\<open>snake\<close>. The callback itself
  tests neither \<^verbatim>\<open>gameOver\<close> nor \<^verbatim>\<open>isPaused\<close>: only the effect that
  arms the timer does (line 113). One call of the model is one run of the updater.

  On an empty array \<^verbatim>\<open>prevSnake[0]\<close> is \<^verbatim>\<open>undefined\<close>, the head is an
  object whose moved coordinate is \<^verbatim>\<open>NaN\<close> and whose other coordinate is
  \<^verbatim>\<open>undefined\<close>; every comparison on it is false, so it is prepended and popped
  again and no other setter runs: the state keeps its values.
\<close>

definition moveSnake :: "GameState \<Rightarrow> Position list \<Rightarrow> GameState option" where
  "moveSnake s draws =
     (case snake s of
        [] \<Rightarrow> Some s
      | first # others \<Rightarrow>
          (let head = moveHead (direction s) first in
           if hitsWall head then Some (s\<lparr>gameOver := True\<rparr>)
           else if hitsSelf (snake s) head then Some (s\<lparr>gameOver := True\<rparr>)
           else
             (let newSnake = head # snake s in
              if x head = x (food s) \<and> y head = y (food s) then
                (case generateFood (snake s) draws of
                   None \<Rightarrow> None
                 | Some newFood \<Rightarrow>
                     Some (s\<lparr>snake := newSnake, food := newFood, score := score s + 10,
                             speed := (if speed s > 50 then speed s - 2 else speed s)\<rparr>))
              else Some (s\<lparr>snake := butlast newSnake\<rparr>))))"

section \<open>Restart, direction changes and pause\<close>

text \<open>
  \<^verbatim>\<open>resetGame\<close> (lines 179 to 187). Its \<^verbatim>\<open>generateFood()\<close> is the
  callback of the current render, which tests the snake of before the reset.
\<close>

definition resetGame :: "GameState \<Rightarrow> Position list \<Rightarrow> GameState option" where
  "resetGame s draws =
     (case generateFood (snake s) draws of
        None \<Rightarrow> None
      | Some newFood \<Rightarrow>
          Some \<lparr>snake = [\<lparr>x = 10, y = 10\<rparr>], food = newFood, direction = RIGHT,
                gameOver = False, isPaused = False, score = 0, speed = initialSpeed\<rparr>)"

text \<open>\<^verbatim>\<open>handleDirectionChange\<close> (lines 190 to 202), the handler of the four buttons.\<close>

definition handleDirectionChange :: "GameState \<Rightarrow> Direction \<Rightarrow> GameState" where
  "handleDirectionChange s newDirection =
     (if gameOver s then s
      else if (newDirection = UP \<and> direction s \<noteq> DOWN) \<or>
              (newDirection = DOWN \<and> direction s \<noteq> UP) \<or>
              (newDirection = LEFT \<and> direction s \<noteq> RIGHT) \<or>
              (newDirection = RIGHT \<and> direction s \<noteq> LEFT)
      then s\<lparr>direction := newDirection\<rparr>
      else s)"

text \<open>
  \<^verbatim>\<open>handleKeyDown\<close> (lines 64 to 103), on the value of \<^verbatim>\<open>e.key\<close>.
\<close>

definition handleKeyDown :: "GameState \<Rightarrow> string \<Rightarrow> GameState" where
  "handleKeyDown s key =
     (if gameOver s then s
      else if key = ''ArrowUp'' \<or> key = ''w'' \<or> key = ''W'' then
        (if direction s \<noteq> DOWN then s\<lparr>direction := UP\<rparr> else s)
      else if key = ''ArrowDown'' \<or> key = ''s'' \<or> key = ''S'' then
        (if direction s \<noteq> UP then s\<lparr>direction := DOWN\<rparr> else s)
      else if key = ''ArrowLeft'' \<or> key = ''a'' \<or> key = ''A'' then
        (if direction s \<noteq> RIGHT then s\<lparr>direction := LEFT\<rparr> else s)
      else if key = ''ArrowRight'' \<or> key = ''d'' \<or> key = ''D'' then
        (if direction s \<noteq> LEFT then s\<lparr>direction := RIGHT\<rparr> else s)
      else if key = '' '' then s\<lparr>isPaused := \<not> isPaused s\<rparr>
      else s)"

text \<open>
  The direction part of \<^verbatim>\<open>handleTouchMove\<close> (lines 245 to 280), on the touch
  coordinates stored by the last touch event and those of this one. A stored coordinate
  of 0 is falsy and makes the handler return.
\<close>

definition handleTouchMove :: "GameState \<Rightarrow> real \<Rightarrow> real \<Rightarrow> real \<Rightarrow> real \<Rightarrow> GameState" where
  "handleTouchMove s touchStartX touchStartY touchEndX touchEndY =
     (if touchStartX = 0 \<or> touchStartY = 0 \<or> gameOver s then s
      else
        (let diffX = touchStartX - touchEndX; diffY = touchStartY - touchEndY in
         if \<bar>diffX\<bar> > \<bar>diffY\<bar> then
           (if diffX > 0 \<and> direction s \<noteq> RIGHT then s\<lparr>direction := LEFT\<rparr>
            else if diffX < 0 \<and> direction s \<noteq> LEFT then s\<lparr>direction := RIGHT\<rparr>
            else s)
         else
           (if diffY > 0 \<and> direction s \<noteq> DOWN then s\<lparr>direction := UP\<rparr>
            else if diffY < 0 \<and> direction s \<noteq> UP then s\<lparr>direction := DOWN\<rparr>
            else s)))"

text \<open>The pause button, \<^verbatim>\<open>setIsPaused(!isPaused)\<close> (line 345).\<close>

definition togglePause :: "GameState \<Rightarrow> GameState" where
  "togglePause s = s\<lparr>isPaused := \<not> isPaused s\<rparr>"

section \<open>Runs of the game\<close>

text \<open>
  What can happen to the state between two restarts: a tick, the food effect, a
  direction button, a key, a touch move, the pause button. A tick is allowed in every
  state, which covers the timer that is still armed when the game is paused or over.
\<close>

datatype Event =
    Tick "Position list"
  | FoodEffect "Position list"
  | DirectionButton Direction
  | KeyDown string
  | TouchMove real real real real
  | PauseButton

fun step :: "GameState \<Rightarrow> Event \<Rightarrow> GameState option" where
  "step s (Tick draws) = moveSnake s draws"
| "step s (FoodEffect draws) = initFood s draws"
| "step s (DirectionButton d) = Some (handleDirectionChange s d)"
| "step s (KeyDown key) = Some (handleKeyDown s key)"
| "step s (TouchMove sx sy ex ey) = Some (handleTouchMove s sx sy ex ey)"
| "step s PauseButton = Some (togglePause s)"

fun run :: "GameState \<Rightarrow> Event list \<Rightarrow> GameState option" where
  "run s [] = Some s"
| "run s (e # es) = (case step s e of None \<Rightarrow> None | Some s' \<Rightarrow> run s' es)"

section \<open>Notions of the specification\<close>

text \<open>
  The specification's pairs of opposite directions (UP and DOWN, LEFT and RIGHT); the
  source writes them out in the guards of its handlers.
\<close>

fun opposite :: "Direction \<Rightarrow> Direction" where
  "opposite UP = DOWN"
| "opposite DOWN = UP"
| "opposite LEFT = RIGHT"
| "opposite RIGHT = LEFT"

text \<open>
  The direction a key asks for: the case labels of the \<^verbatim>\<open>switch (e.key)\<close> of
  \<^verbatim>\<open>handleKeyDown\<close>, in its order.
\<close>

definition keyDirection :: "string \<Rightarrow> Direction option" where
  "keyDirection key =
     (if key = ''ArrowUp'' \<or> key = ''w'' \<or> key = ''W'' then Some UP
      else if key = ''ArrowDown'' \<or> key = ''s'' \<or> key = ''S'' then Some DOWN
      else if key = ''ArrowLeft'' \<or> key = ''a'' \<or> key = ''A'' then Some LEFT
      else if key = ''ArrowRight'' \<or> key = ''d'' \<or> key = ''D'' then Some RIGHT
      else None)"

text \<open>
  The invariant of \<^verbatim>\<open>speed\<close> that the runs keep: between 50 and the initial
  value, and even, so that the guarded decrement by 2 stops at 50 exactly.
\<close>

definition speedInv :: "int \<Rightarrow> bool" where
  "speedInv v \<longleftrightarrow> 50 \<le> v \<and> v \<le> initialSpeed \<and> even v"

section \<open>Lemmas on positions and food placement\<close>

lemma samePos_iff: "(x a = x b \<and> y a = y b) \<longleftrightarrow> a = (b::Position)"
  by auto

lemma list_ex_samePos:
  "list_ex (\<lambda>segment. x segment = x p \<and> y segment = y p) body \<longleftrightarrow> (p::Position) \<in> set body"
  by (induction body) auto

text \<open>
  A cell that \<^const>\<open>generateFood\<close> returns is one of the draws and is not on the
  snake it was given; and it returns as soon as one draw is off that snake.
\<close>

lemma generateFood_Some:
  "generateFood body draws = Some newFood \<Longrightarrow> newFood \<notin> set body \<and> newFood \<in> set draws"
  by (induction draws) (auto simp: list_ex_samePos split: if_splits)

lemma generateFood_returns:
  "\<exists>d \<in> set draws. d \<notin> set body \<Longrightarrow> \<exists>newFood. generateFood body draws = Some newFood"
  by (induction draws) (auto simp: list_ex_samePos)

lemma initFood_valid:
  "initFood s draws = Some s' \<Longrightarrow> food s' \<notin> set (snake s') \<and> s' = s\<lparr>food := food s'\<rparr>"
  by (auto simp: initFood_def split: option.splits dest: generateFood_Some)

lemma resetGame_fields:
  "resetGame s draws = Some s' \<Longrightarrow>
     snake s' = [\<lparr>x = 10, y = 10\<rparr>] \<and> direction s' = RIGHT \<and> score s' = 0 \<and>
     speed s' = 150 \<and> \<not> isPaused s' \<and> \<not> gameOver s' \<and> food s' \<notin> set (snake s)"
  by (auto simp: resetGame_def initialSpeed_def split: option.splits dest: generateFood_Some)

text \<open>
  The moved head is never the head itself, so the self test, which skips index 0, is a test
  against every segment.
\<close>

lemma moveHead_neq: "moveHead d head \<noteq> (head::Position)"
  by (cases d; cases head) auto

lemma hitsSelf_iff:
  "hitsSelf (first # others) (moveHead d first) \<longleftrightarrow> moveHead d first \<in> set (first # others)"
  using moveHead_neq[of d first] by (auto simp: hitsSelf_def list_ex_samePos)

section \<open>Lemmas on the handlers\<close>

lemma handleDirectionChange_cases:
  "\<not> gameOver s \<Longrightarrow>
     handleDirectionChange s requested =
       (if requested = opposite (direction s) then s else s\<lparr>direction := requested\<rparr>)"
  by (cases requested; cases "direction s") (simp_all add: handleDirectionChange_def)

lemma handleKeyDown_direction:
  assumes "\<not> gameOver s" and "keyDirection key = Some requested"
  shows "handleKeyDown s key =
           (if requested = opposite (direction s) then s else s\<lparr>direction := requested\<rparr>)"
proof (cases requested)
  case UP
  with assms(2) have "key = ''ArrowUp'' \<or> key = ''w'' \<or> key = ''W''"
    by (simp add: keyDirection_def split: if_splits)
  with assms(1) UP show ?thesis
    by (cases "direction s") (auto simp add: handleKeyDown_def)
next
  case DOWN
  with assms(2) have "key = ''ArrowDown'' \<or> key = ''s'' \<or> key = ''S''"
    by (simp add: keyDirection_def split: if_splits)
  with assms(1) DOWN show ?thesis
    by (cases "direction s") (auto simp add: handleKeyDown_def)
next
  case LEFT
  with assms(2) have "key = ''ArrowLeft'' \<or> key = ''a'' \<or> key = ''A''"
    by (simp add: keyDirection_def split: if_splits)
  with assms(1) LEFT show ?thesis
    by (cases "direction s") (auto simp add: handleKeyDown_def)
next
  case RIGHT
  with assms(2) have "key = ''ArrowRight'' \<or> key = ''d'' \<or> key = ''D''"
    by (simp add: keyDirection_def split: if_splits)
  with assms(1) RIGHT show ?thesis
    by (cases "direction s") (auto simp add: handleKeyDown_def)
qed

section \<open>Lemmas on the speed\<close>

lemma speed_handleDirectionChange: "speed (handleDirectionChange s d) = speed s"
  by (simp add: handleDirectionChange_def)

lemma speed_handleKeyDown: "speed (handleKeyDown s key) = speed s"
  by (simp add: handleKeyDown_def)

lemma speed_handleTouchMove: "speed (handleTouchMove s sx sy ex ey) = speed s"
  by (simp add: handleTouchMove_def Let_def)

lemma speed_togglePause: "speed (togglePause s) = speed s"
  by (simp add: togglePause_def)

lemma speed_initFood: "initFood s draws = Some s' \<Longrightarrow> speed s' = speed s"
  by (auto simp: initFood_def split: option.splits)

lemma speed_moveSnake:
  "moveSnake s draws = Some s' \<Longrightarrow>
     speed s' = speed s \<or> (50 < speed s \<and> speed s' = speed s - 2)"
  by (auto simp: moveSnake_def Let_def split: list.splits if_splits option.splits)

lemma step_speed:
  "step s e = Some s' \<Longrightarrow> speed s' = speed s \<or> (50 < speed s \<and> speed s' = speed s - 2)"
  by (cases e)
    (auto simp: speed_handleDirectionChange speed_handleKeyDown speed_handleTouchMove
       speed_togglePause dest: speed_initFood speed_moveSnake)

lemma step_speedInv:
  assumes "step s e = Some s'" and "speedInv (speed s)"
  shows "speedInv (speed s') \<and> speed s' \<le> speed s"
proof -
  from step_speed[OF assms(1)]
  consider "speed s' = speed s" | "50 < speed s" "speed s' = speed s - 2" by blast
  then show ?thesis
  proof cases
    case 1
    with assms(2) show ?thesis by simp
  next
    case 2
    from assms(2) have "even (speed s)" "speed s \<le> initialSpeed" by (simp_all add: speedInv_def)
    with 2 have "52 \<le> speed s" by presburger
    with 2 \<open>even (speed s)\<close> \<open>speed s \<le> initialSpeed\<close> show ?thesis
      by (simp add: speedInv_def)
  qed
qed

lemma run_speedInv:
  "run s evs = Some s' \<Longrightarrow> speedInv (speed s) \<Longrightarrow> speedInv (speed s') \<and> speed s' \<le> speed s"
proof (induction evs arbitrary: s)
  case Nil
  then show ?case by simp
next
  case (Cons e evs)
  from Cons.prems(1) obtain m where m: "step s e = Some m" "run m evs = Some s'"
    by (auto split: option.splits)
  from step_speedInv[OF m(1) Cons.prems(2)] have "speedInv (speed m)" "speed m \<le> speed s"
    by simp_all
  with Cons.IH[OF m(2)] show ?case by auto
qed

section \<open>The tick: growth, score and speed\<close>

text \<open>
  Claim C1. A tick that hits neither a wall nor the snake does this. If the new head is on
  the food, the body is one segment longer, the score is 10 higher, and the tick interval is
  2 lower unless it is 50, when it stays; when the food placement returns, the tick returns
  a state with these values. If the new head is not on the food, the tick returns a state
  with a body of the same length and the same score and tick interval. The tick interval is
  taken to be at least 50, as in the data model of the state; the updater reads neither
  \<^verbatim>\<open>gameOver\<close> nor \<^verbatim>\<open>isPaused\<close>, so the statement holds whatever their
  values are.
\<close>

theorem moveSnake_growth:
  assumes "snake s = first # others" and "50 \<le> speed s"
    and "\<not> hitsWall (moveHead (direction s) first)"
    and "\<not> hitsSelf (snake s) (moveHead (direction s) first)"
  shows "(moveHead (direction s) first = food s \<longrightarrow>
           (\<forall>newFood. generateFood (snake s) draws = Some newFood \<longrightarrow>
              (\<exists>s'. moveSnake s draws = Some s' \<and>
                 length (snake s') = length (snake s) + 1 \<and>
                 score s' = score s + 10 \<and>
                 speed s' = (if speed s = 50 then speed s else speed s - 2)))) \<and>
         (moveHead (direction s) first \<noteq> food s \<longrightarrow>
           (\<exists>s'. moveSnake s draws = Some s' \<and>
              length (snake s') = length (snake s) \<and>
              score s' = score s \<and> speed s' = speed s))"
  using assms by (auto simp: moveSnake_def Let_def samePos_iff)

theorem moveSnake_growth_witness:
  "(\<exists>s'. moveSnake \<lparr>snake = [\<lparr>x = 1, y = 1\<rparr>], food = \<lparr>x = 2, y = 1\<rparr>, direction = RIGHT,
             gameOver = False, isPaused = False, score = 0, speed = 150\<rparr> [\<lparr>x = 7, y = 3\<rparr>] = Some s' \<and>
          length (snake s') = 2 \<and> score s' = 10 \<and> speed s' = 148) \<and>
   (\<exists>s'. moveSnake \<lparr>snake = [\<lparr>x = 4, y = 4\<rparr>, \<lparr>x = 4, y = 5\<rparr>], food = \<lparr>x = 9, y = 9\<rparr>, direction = UP,
             gameOver = False, isPaused = False, score = 10, speed = 50\<rparr> [] = Some s' \<and>
          length (snake s') = 2 \<and> score s' = 10 \<and> speed s' = 50)"
  using
    moveSnake_growth [of "\<lparr>snake = [\<lparr>x = 1, y = 1\<rparr>], food = \<lparr>x = 2, y = 1\<rparr>, direction = RIGHT,
        gameOver = False, isPaused = False, score = 0, speed = 150\<rparr>" "\<lparr>x = 1, y = 1\<rparr>" "[]"
        "[\<lparr>x = 7, y = 3\<rparr>]"]
    moveSnake_growth [of "\<lparr>snake = [\<lparr>x = 4, y = 4\<rparr>, \<lparr>x = 4, y = 5\<rparr>], food = \<lparr>x = 9, y = 9\<rparr>, direction = UP,
        gameOver = False, isPaused = False, score = 10, speed = 50\<rparr>" "\<lparr>x = 4, y = 4\<rparr>" "[\<lparr>x = 4, y = 5\<rparr>]"
        "[]"]
  by (simp add: hitsWall_def hitsSelf_def gridSize_def numeral_2_eq_2)

section \<open>Food placed by a tick\<close>

text \<open>
  Claim C2. The food a tick places is tested against the snake of before the move
  (\<open>generateFood_Some\<close> is what the test gives), so the cell of the new head is not
  excluded: with the snake on (1,1) heading right, the food on (2,1) and (2,1) drawn, the
  tick returns the snake (2,1), (1,1) with the new food on (2,1), under the new head.
\<close>

theorem moveSnake_food_on_new_head:
  "moveSnake \<lparr>snake = [\<lparr>x = 1, y = 1\<rparr>], food = \<lparr>x = 2, y = 1\<rparr>, direction = RIGHT,
      gameOver = False, isPaused = False, score = 0, speed = 150\<rparr> [\<lparr>x = 2, y = 1\<rparr>] =
   Some \<lparr>snake = [\<lparr>x = 2, y = 1\<rparr>, \<lparr>x = 1, y = 1\<rparr>], food = \<lparr>x = 2, y = 1\<rparr>, direction = RIGHT,
      gameOver = False, isPaused = False, score = 10, speed = 148\<rparr> \<and>
   \<lparr>x = 2, y = 1\<rparr> \<in> set [\<lparr>x = 2, y = 1\<rparr>, \<lparr>x = 1, y = 1\<rparr>]"
  by (simp add: moveSnake_def Let_def hitsWall_def hitsSelf_def gridSize_def)

section \<open>Collisions\<close>

text \<open>
  Claim C3. When the new head is on any segment of the current snake, the head included,
  the tick returns the state with \<^verbatim>\<open>gameOver\<close> set and every other field as it
  was: snake, food, direction, score and speed.
\<close>

theorem moveSnake_self_collision:
  assumes "snake s = first # others"
    and "moveHead (direction s) first \<in> set (snake s)"
  shows "moveSnake s draws = Some (s\<lparr>gameOver := True\<rparr>)"
  using assms hitsSelf_iff[of first others "direction s"]
  by (simp add: moveSnake_def Let_def)

theorem moveSnake_self_collision_witness:
  "moveSnake \<lparr>snake = [\<lparr>x = 5, y = 5\<rparr>, \<lparr>x = 6, y = 5\<rparr>, \<lparr>x = 6, y = 6\<rparr>, \<lparr>x = 5, y = 6\<rparr>],
      food = \<lparr>x = 9, y = 9\<rparr>, direction = DOWN,
      gameOver = False, isPaused = False, score = 30, speed = 144\<rparr> [] =
   Some \<lparr>snake = [\<lparr>x = 5, y = 5\<rparr>, \<lparr>x = 6, y = 5\<rparr>, \<lparr>x = 6, y = 6\<rparr>, \<lparr>x = 5, y = 6\<rparr>],
      food = \<lparr>x = 9, y = 9\<rparr>, direction = DOWN,
      gameOver = True, isPaused = False, score = 30, speed = 144\<rparr>"
  using moveSnake_self_collision [of "\<lparr>snake = [\<lparr>x = 5, y = 5\<rparr>, \<lparr>x = 6, y = 5\<rparr>, \<lparr>x = 6, y = 6\<rparr>, \<lparr>x = 5, y = 6\<rparr>],
      food = \<lparr>x = 9, y = 9\<rparr>, direction = DOWN,
      gameOver = False, isPaused = False, score = 30, speed = 144\<rparr>" "\<lparr>x = 5, y = 5\<rparr>"
      "[\<lparr>x = 6, y = 5\<rparr>, \<lparr>x = 6, y = 6\<rparr>, \<lparr>x = 5, y = 6\<rparr>]" "[]"]
  by simp

text \<open>
  Claim C4. When a coordinate of the new head is outside the grid, below 0 or at least 20,
  the tick returns the state with \<^verbatim>\<open>gameOver\<close> set and every other field as it
  was; so it does from a cell of each border in the direction that leaves the grid.
\<close>

theorem moveSnake_wall:
  assumes "snake s = first # others"
  shows "(hitsWall (moveHead (direction s) first) \<longrightarrow>
            moveSnake s draws = Some (s\<lparr>gameOver := True\<rparr>)) \<and>
         (direction s = UP \<and> y first = 0 \<longrightarrow>
            moveSnake s draws = Some (s\<lparr>gameOver := True\<rparr>)) \<and>
         (direction s = DOWN \<and> y first = gridSize - 1 \<longrightarrow>
            moveSnake s draws = Some (s\<lparr>gameOver := True\<rparr>)) \<and>
         (direction s = LEFT \<and> x first = 0 \<longrightarrow>
            moveSnake s draws = Some (s\<lparr>gameOver := True\<rparr>)) \<and>
         (direction s = RIGHT \<and> x first = gridSize - 1 \<longrightarrow>
            moveSnake s draws = Some (s\<lparr>gameOver := True\<rparr>))"
proof -
  have wall: "moveSnake s draws = Some (s\<lparr>gameOver := True\<rparr>)"
    if "hitsWall (moveHead (direction s) first)"
    using assms that by (simp add: moveSnake_def Let_def)
  show ?thesis
    by (intro conjI impI wall) (simp_all add: hitsWall_def gridSize_def)
qed

theorem moveSnake_wall_witness:
  "moveSnake \<lparr>snake = [\<lparr>x = 0, y = 5\<rparr>, \<lparr>x = 1, y = 5\<rparr>], food = \<lparr>x = 7, y = 7\<rparr>, direction = LEFT,
      gameOver = False, isPaused = False, score = 10, speed = 148\<rparr> [] =
   Some \<lparr>snake = [\<lparr>x = 0, y = 5\<rparr>, \<lparr>x = 1, y = 5\<rparr>], food = \<lparr>x = 7, y = 7\<rparr>, direction = LEFT,
      gameOver = True, isPaused = False, score = 10, speed = 148\<rparr>"
  using moveSnake_wall [of "\<lparr>snake = [\<lparr>x = 0, y = 5\<rparr>, \<lparr>x = 1, y = 5\<rparr>], food = \<lparr>x = 7, y = 7\<rparr>, direction = LEFT,
      gameOver = False, isPaused = False, score = 10, speed = 148\<rparr>" "\<lparr>x = 0, y = 5\<rparr>" "[\<lparr>x = 1, y = 5\<rparr>]" "[]"]
  by (simp add: hitsWall_def)

section \<open>The scenario of one tick onto the food\<close>

text \<open>
  Claim C5, as the code has it. From the snake on (1,1) heading right on the grid of 20,
  with the food on (2,1), score 0 and tick interval 150, one tick gives the snake (2,1),
  (1,1), grown by the head, with score 10, tick interval 148 and the game not over,
  whatever cell the food placement returns.
\<close>

theorem scenario_tick:
  assumes "generateFood [\<lparr>x = 1, y = 1\<rparr>] draws = Some newFood"
  shows "moveSnake \<lparr>snake = [\<lparr>x = 1, y = 1\<rparr>], food = \<lparr>x = 2, y = 1\<rparr>, direction = RIGHT,
      gameOver = False, isPaused = False, score = 0, speed = 150\<rparr> draws =
   Some \<lparr>snake = [\<lparr>x = 2, y = 1\<rparr>, \<lparr>x = 1, y = 1\<rparr>], food = newFood, direction = RIGHT,
      gameOver = False, isPaused = False, score = 10, speed = 148\<rparr>"
  using assms by (simp add: moveSnake_def Let_def hitsWall_def hitsSelf_def gridSize_def)

theorem scenario_tick_witness:
  "generateFood [\<lparr>x = 1, y = 1\<rparr>] [\<lparr>x = 1, y = 1\<rparr>, \<lparr>x = 12, y = 0\<rparr>] = Some \<lparr>x = 12, y = 0\<rparr> \<and>
   moveSnake \<lparr>snake = [\<lparr>x = 1, y = 1\<rparr>], food = \<lparr>x = 2, y = 1\<rparr>, direction = RIGHT,
      gameOver = False, isPaused = False, score = 0, speed = 150\<rparr> [\<lparr>x = 1, y = 1\<rparr>, \<lparr>x = 12, y = 0\<rparr>] =
   Some \<lparr>snake = [\<lparr>x = 2, y = 1\<rparr>, \<lparr>x = 1, y = 1\<rparr>], food = \<lparr>x = 12, y = 0\<rparr>, direction = RIGHT,
      gameOver = False, isPaused = False, score = 10, speed = 148\<rparr>"
proof -
  have g: "generateFood [\<lparr>x = 1, y = 1\<rparr>] [\<lparr>x = 1, y = 1\<rparr>, \<lparr>x = 12, y = 0\<rparr>] = Some \<lparr>x = 12, y = 0\<rparr>"
    by simp
  from scenario_tick [OF g] g show ?thesis by simp
qed

text \<open>
  The snake of one segment (2,1) that the scenario is written with is not what the tick
  returns: with (7,3) drawn for the food, the snake is (2,1), (1,1).
\<close>

theorem scenario_tick_counterexample:
  "moveSnake \<lparr>snake = [\<lparr>x = 1, y = 1\<rparr>], food = \<lparr>x = 2, y = 1\<rparr>, direction = RIGHT,
      gameOver = False, isPaused = False, score = 0, speed = 150\<rparr> [\<lparr>x = 7, y = 3\<rparr>] =
   Some \<lparr>snake = [\<lparr>x = 2, y = 1\<rparr>, \<lparr>x = 1, y = 1\<rparr>], food = \<lparr>x = 7, y = 3\<rparr>, direction = RIGHT,
      gameOver = False, isPaused = False, score = 10, speed = 148\<rparr> \<and>
   [\<lparr>x = 2, y = 1\<rparr>, \<lparr>x = 1, y = 1\<rparr>] \<noteq> [\<lparr>x = 2, y = 1\<rparr>]"
  by (simp add: moveSnake_def Let_def hitsWall_def hitsSelf_def gridSize_def)

section \<open>The tick interval over a game\<close>

text \<open>
  Claim C6. From a state whose tick interval is the initial 150 (the initial state, or the
  state a restart gives), along every sequence of ticks, food effects, direction buttons,
  keys, touch moves and pause buttons that returns, the tick interval never rises and stays
  between 50 and 150: for every state \<open>s1\<close> reached and every state \<open>s2\<close> reached
  from it, the interval of \<open>s2\<close> is at least 50 and at most that of \<open>s1\<close>, which is at
  most 150. The interval stays even, so the decrement by 2 under the guard
  \<^verbatim>\<open>speed > 50\<close> is only taken from 52 or more.
\<close>

theorem speed_monotone_bounded:
  assumes "speed s0 = initialSpeed"
    and "run s0 evs = Some s1"
    and "run s1 evs' = Some s2"
  shows "50 \<le> speed s2 \<and> speed s2 \<le> speed s1 \<and> speed s1 \<le> 150"
proof -
  have "speedInv (speed s0)"
    using assms(1) by (simp add: speedInv_def initialSpeed_def)
  from run_speedInv[OF assms(2) this] have 1: "speedInv (speed s1)"
    by simp
  from run_speedInv[OF assms(3) 1] have "speedInv (speed s2)" "speed s2 \<le> speed s1"
    by simp_all
  with 1 show ?thesis
    by (simp add: speedInv_def initialSpeed_def)
qed

theorem speed_monotone_bounded_witness:
  "speed initialState = initialSpeed \<and>
   run initialState [KeyDown '' '', FoodEffect [\<lparr>x = 11, y = 10\<rparr>]] =
     Some \<lparr>snake = [\<lparr>x = 10, y = 10\<rparr>], food = \<lparr>x = 11, y = 10\<rparr>, direction = RIGHT,
           gameOver = False, isPaused = False, score = 0, speed = 150\<rparr> \<and>
   run \<lparr>snake = [\<lparr>x = 10, y = 10\<rparr>], food = \<lparr>x = 11, y = 10\<rparr>, direction = RIGHT,
           gameOver = False, isPaused = False, score = 0, speed = 150\<rparr>
       [Tick [\<lparr>x = 3, y = 3\<rparr>], DirectionButton UP] =
     Some \<lparr>snake = [\<lparr>x = 11, y = 10\<rparr>, \<lparr>x = 10, y = 10\<rparr>], food = \<lparr>x = 3, y = 3\<rparr>, direction = UP,
           gameOver = False, isPaused = False, score = 10, speed = 148\<rparr> \<and>
   (50::int) \<le> 148 \<and> (148::int) \<le> 150 \<and> (150::int) \<le> 150"
proof -
  have a: "speed initialState = initialSpeed"
    by (simp add: initialState_def)
  have b: "run initialState [KeyDown '' '', FoodEffect [\<lparr>x = 11, y = 10\<rparr>]] =
     Some \<lparr>snake = [\<lparr>x = 10, y = 10\<rparr>], food = \<lparr>x = 11, y = 10\<rparr>, direction = RIGHT,
           gameOver = False, isPaused = False, score = 0, speed = 150\<rparr>"
    by (simp add: initialState_def initialSpeed_def handleKeyDown_def initFood_def)
  have c: "run \<lparr>snake = [\<lparr>x = 10, y = 10\<rparr>], food = \<lparr>x = 11, y = 10\<rparr>, direction = RIGHT,
           gameOver = False, isPaused = False, score = 0, speed = 150\<rparr>
       [Tick [\<lparr>x = 3, y = 3\<rparr>], DirectionButton UP] =
     Some \<lparr>snake = [\<lparr>x = 11, y = 10\<rparr>, \<lparr>x = 10, y = 10\<rparr>], food = \<lparr>x = 3, y = 3\<rparr>, direction = UP,
           gameOver = False, isPaused = False, score = 10, speed = 148\<rparr>"
    by (simp add: moveSnake_def Let_def hitsWall_def hitsSelf_def gridSize_def
        handleDirectionChange_def)
  from speed_monotone_bounded [OF a b c] a b c show ?thesis
    by simp
qed

section \<open>Direction changes\<close>

text \<open>
  Claim C7. While the game is not over, the direction button handler replaces the direction
  by the requested one unless the requested one is the opposite of the current direction;
  then it returns the state as it is.
\<close>

theorem handleDirectionChange_rule:
  assumes "\<not> gameOver s"
  shows "handleDirectionChange s requested =
           (if requested = opposite (direction s) then s else s\<lparr>direction := requested\<rparr>)"
  using assms by (rule handleDirectionChange_cases)

theorem handleDirectionChange_rule_witness:
  "handleDirectionChange \<lparr>snake = [\<lparr>x = 10, y = 10\<rparr>], food = \<lparr>x = 5, y = 5\<rparr>, direction = RIGHT,
      gameOver = False, isPaused = False, score = 0, speed = 150\<rparr> LEFT =
     \<lparr>snake = [\<lparr>x = 10, y = 10\<rparr>], food = \<lparr>x = 5, y = 5\<rparr>, direction = RIGHT,
      gameOver = False, isPaused = False, score = 0, speed = 150\<rparr> \<and>
   handleDirectionChange \<lparr>snake = [\<lparr>x = 10, y = 10\<rparr>], food = \<lparr>x = 5, y = 5\<rparr>, direction = RIGHT,
      gameOver = False, isPaused = False, score = 0, speed = 150\<rparr> UP =
     \<lparr>snake = [\<lparr>x = 10, y = 10\<rparr>], food = \<lparr>x = 5, y = 5\<rparr>, direction = UP,
      gameOver = False, isPaused = False, score = 0, speed = 150\<rparr>"
  using
    handleDirectionChange_rule [of "\<lparr>snake = [\<lparr>x = 10, y = 10\<rparr>], food = \<lparr>x = 5, y = 5\<rparr>, direction = RIGHT,
      gameOver = False, isPaused = False, score = 0, speed = 150\<rparr>" LEFT]
    handleDirectionChange_rule [of "\<lparr>snake = [\<lparr>x = 10, y = 10\<rparr>], food = \<lparr>x = 5, y = 5\<rparr>, direction = RIGHT,
      gameOver = False, isPaused = False, score = 0, speed = 150\<rparr>" UP]
  by simp

section \<open>Restart\<close>

text \<open>
  Claim C8. The restart handler sets the snake to the single cell (10,10), the direction to
  RIGHT, the score to 0, the tick interval to 150 and both flags to false
  (\<open>resetGame_fields\<close>), but the food it places is tested against the snake of before
  the restart. A game restarted from the initial state with the food on (5,5) runs ten
  ticks to the right: nine moves to (19,10), and the tenth hits the wall and ends the game.
  A restart there, with (10,10) drawn, sets the food on (10,10), the cell of the new snake.
\<close>

theorem resetGame_food_on_new_snake:
  "resetGame initialState [\<lparr>x = 5, y = 5\<rparr>] =
     Some \<lparr>snake = [\<lparr>x = 10, y = 10\<rparr>], food = \<lparr>x = 5, y = 5\<rparr>, direction = RIGHT,
           gameOver = False, isPaused = False, score = 0, speed = 150\<rparr> \<and>
   run \<lparr>snake = [\<lparr>x = 10, y = 10\<rparr>], food = \<lparr>x = 5, y = 5\<rparr>, direction = RIGHT,
         gameOver = False, isPaused = False, score = 0, speed = 150\<rparr>
       [Tick [], Tick [], Tick [], Tick [], Tick [], Tick [], Tick [], Tick [], Tick [], Tick []] =
     Some \<lparr>snake = [\<lparr>x = 19, y = 10\<rparr>], food = \<lparr>x = 5, y = 5\<rparr>, direction = RIGHT,
           gameOver = True, isPaused = False, score = 0, speed = 150\<rparr> \<and>
   resetGame \<lparr>snake = [\<lparr>x = 19, y = 10\<rparr>], food = \<lparr>x = 5, y = 5\<rparr>, direction = RIGHT,
         gameOver = True, isPaused = False, score = 0, speed = 150\<rparr> [\<lparr>x = 10, y = 10\<rparr>] =
     Some \<lparr>snake = [\<lparr>x = 10, y = 10\<rparr>], food = \<lparr>x = 10, y = 10\<rparr>, direction = RIGHT,
           gameOver = False, isPaused = False, score = 0, speed = 150\<rparr> \<and>
   \<lparr>x = 10, y = 10\<rparr> \<in> set [\<lparr>x = 10, y = 10\<rparr>]"
  by (simp add: resetGame_def initialState_def initialSpeed_def moveSnake_def Let_def
      hitsWall_def hitsSelf_def gridSize_def)

section \<open>Two direction changes between two ticks\<close>

text \<open>
  Claim C9. The handlers compare a request with the stored direction only. From a state
  heading RIGHT in a game that is not over, a request for UP followed by a request for LEFT,
  by the buttons or by the keys, leaves the direction LEFT, the opposite of the heading of
  the last move; and when the second segment is the cell left of the head, as it is after a
  move to the right, the next tick ends the game.
\<close>

theorem double_turn_reverses:
  assumes "direction s = RIGHT" and "\<not> gameOver s"
  shows "handleDirectionChange (handleDirectionChange s UP) LEFT = s\<lparr>direction := LEFT\<rparr> \<and>
         handleKeyDown (handleKeyDown s ''ArrowUp'') ''ArrowLeft'' = s\<lparr>direction := LEFT\<rparr> \<and>
         (\<forall>first second rest.
            snake s = first # second # rest \<and> second = moveHead LEFT first \<longrightarrow>
            moveSnake (s\<lparr>direction := LEFT\<rparr>) draws =
              Some (s\<lparr>direction := LEFT, gameOver := True\<rparr>))"
proof (intro conjI allI impI)
  show "handleDirectionChange (handleDirectionChange s UP) LEFT = s\<lparr>direction := LEFT\<rparr>"
    using assms by (simp add: handleDirectionChange_def)
  show "handleKeyDown (handleKeyDown s ''ArrowUp'') ''ArrowLeft'' = s\<lparr>direction := LEFT\<rparr>"
    using assms by (simp add: handleKeyDown_def)
next
  fix first second rest
  assume "snake s = first # second # rest \<and> second = moveHead LEFT first"
  then have shape: "snake (s\<lparr>direction := LEFT\<rparr>) = first # second # rest"
    and "moveHead LEFT first \<in> set (first # second # rest)"
    by simp_all
  then have "hitsSelf (snake (s\<lparr>direction := LEFT\<rparr>)) (moveHead LEFT first)"
    using hitsSelf_iff[of first "second # rest" LEFT] by simp
  with shape
  show "moveSnake (s\<lparr>direction := LEFT\<rparr>) draws = Some (s\<lparr>direction := LEFT, gameOver := True\<rparr>)"
    by (simp add: moveSnake_def Let_def)
qed

theorem double_turn_reverses_witness:
  "handleDirectionChange (handleDirectionChange
      \<lparr>snake = [\<lparr>x = 5, y = 5\<rparr>, \<lparr>x = 4, y = 5\<rparr>], food = \<lparr>x = 9, y = 9\<rparr>, direction = RIGHT,
       gameOver = False, isPaused = False, score = 10, speed = 148\<rparr> UP) LEFT =
     \<lparr>snake = [\<lparr>x = 5, y = 5\<rparr>, \<lparr>x = 4, y = 5\<rparr>], food = \<lparr>x = 9, y = 9\<rparr>, direction = LEFT,
       gameOver = False, isPaused = False, score = 10, speed = 148\<rparr> \<and>
   moveSnake \<lparr>snake = [\<lparr>x = 5, y = 5\<rparr>, \<lparr>x = 4, y = 5\<rparr>], food = \<lparr>x = 9, y = 9\<rparr>, direction = LEFT,
       gameOver = False, isPaused = False, score = 10, speed = 148\<rparr> [] =
     Some \<lparr>snake = [\<lparr>x = 5, y = 5\<rparr>, \<lparr>x = 4, y = 5\<rparr>], food = \<lparr>x = 9, y = 9\<rparr>, direction = LEFT,
       gameOver = True, isPaused = False, score = 10, speed = 148\<rparr>"
  using double_turn_reverses [of "\<lparr>snake = [\<lparr>x = 5, y = 5\<rparr>, \<lparr>x = 4, y = 5\<rparr>], food = \<lparr>x = 9, y = 9\<rparr>, direction = RIGHT,
       gameOver = False, isPaused = False, score = 10, speed = 148\<rparr>" "[]"]
  by simp

section \<open>Direction changes while paused\<close>

text \<open>
  Claim C10. In a paused game that is not over, a request for a direction that is not the
  opposite of the current one replaces the direction, from the buttons and from the keys;
  in a game that is over, both handlers return the state as it is.
\<close>

theorem direction_change_while_paused:
  "(\<not> gameOver s \<and> isPaused s \<and> requested \<noteq> opposite (direction s) \<longrightarrow>
      handleDirectionChange s requested = s\<lparr>direction := requested\<rparr> \<and>
      (\<forall>key. keyDirection key = Some requested \<longrightarrow>
         handleKeyDown s key = s\<lparr>direction := requested\<rparr>)) \<and>
   (gameOver s \<longrightarrow> handleDirectionChange s requested = s \<and> handleKeyDown s key' = s)"
proof (intro conjI impI allI)
  assume a: "\<not> gameOver s \<and> isPaused s \<and> requested \<noteq> opposite (direction s)"
  then show "handleDirectionChange s requested = s\<lparr>direction := requested\<rparr>"
    by (simp add: handleDirectionChange_cases)
  fix key
  assume "keyDirection key = Some requested"
  with a show "handleKeyDown s key = s\<lparr>direction := requested\<rparr>"
    by (simp add: handleKeyDown_direction)
next
  assume "gameOver s"
  then show "handleDirectionChange s requested = s"
    by (simp add: handleDirectionChange_def)
next
  assume "gameOver s"
  then show "handleKeyDown s key' = s"
    by (simp add: handleKeyDown_def)
qed

theorem direction_change_while_paused_witness:
  "isPaused initialState \<and> \<not> gameOver initialState \<and>
   handleDirectionChange initialState UP = initialState\<lparr>direction := UP\<rparr> \<and>
   handleKeyDown initialState ''w'' = initialState\<lparr>direction := UP\<rparr> \<and>
   direction (initialState\<lparr>direction := UP\<rparr>) \<noteq> direction initialState"
proof -
  have "\<not> gameOver initialState \<and> isPaused initialState \<and> UP \<noteq> opposite (direction initialState)"
    by (simp add: initialState_def)
  moreover have "keyDirection ''w'' = Some UP"
    by (simp add: keyDirection_def)
  ultimately show ?thesis
    using direction_change_while_paused [of initialState UP]
    by (simp add: initialState_def)
qed

end
